theory Spec2Isabelle
  imports Complex_Main
begin

section \<open>JavaScript strings\<close>

text \<open>
  A JavaScript string is a \<^typ>\<open>string\<close>: a list of code units, of which \<^typ>\<open>char\<close>
  covers the range 0..255. \<open>s.length\<close> is \<^term>\<open>length s\<close>, \<open>s.substring(a, b)\<close> with
  \<open>a \<le> b\<close> is \<^term>\<open>take (b - a) (drop a s)\<close>, and a template literal is \<open>@\<close>.
\<close>

text \<open>The class \<open>\s\<close> of a regular expression, which is also what \<open>trim()\<close> strips:
  tab, line feed, vertical tab, form feed, carriage return, space and no-break space.\<close>

definition is_space :: "char \<Rightarrow> bool" where
  "is_space c = (c \<in> set [CHR 0x09, CHR 0x0A, CHR 0x0B, CHR 0x0C, CHR 0x0D, CHR '' '', CHR 0xA0])"

text \<open>The line terminators, which \<open>.\<close> in a regular expression does not match.\<close>

definition is_line_terminator :: "char \<Rightarrow> bool" where
  "is_line_terminator c = (c = CHR 0x0A \<or> c = CHR 0x0D)"

text \<open>\<open>s.trim()\<close>\<close>

definition trim :: "string \<Rightarrow> string" where
  "trim s = rev (dropWhile is_space (rev (dropWhile is_space s)))"

text \<open>\<open>s.replace(/\s+/g, ' ')\<close>: every maximal run of white space becomes one space.\<close>

function collapse_ws :: "string \<Rightarrow> string" where
  "collapse_ws [] = []"
| "collapse_ws (c # cs) =
     (if is_space c then CHR '' '' # collapse_ws (dropWhile is_space cs)
      else c # collapse_ws cs)"
  by pat_completeness auto
termination
  by (relation "measure length") (auto simp: le_imp_less_Suc length_dropWhile_le)

text \<open>\<open>xs.join(sep)\<close>\<close>

fun join :: "string \<Rightarrow> string list \<Rightarrow> string" where
  "join sep [] = []"
| "join sep [x] = x"
| "join sep (x # y # ys) = x @ sep @ join sep (y # ys)"

text \<open>\<open>s.split(d)\<close> for a separator of one character: the empty string splits into
  one empty word, and two separators in a row enclose an empty word.\<close>

fun split_on :: "char \<Rightarrow> string \<Rightarrow> string list" where
  "split_on d [] = [[]]"
| "split_on d (c # cs) =
     (if c = d then [] # split_on d cs
      else (case split_on d cs of w # ws \<Rightarrow> (c # w) # ws | [] \<Rightarrow> [[c]]))"

text \<open>\<open>s.replace(/[...]/g, ' ')\<close> for a class of single characters.\<close>

definition blank_out :: "(char \<Rightarrow> bool) \<Rightarrow> string \<Rightarrow> string" where
  "blank_out P s = map (\<lambda>c. if P c then CHR '' '' else c) s"


section \<open>ResumeUpload.tsx: text extraction from an uploaded file\<close>

text \<open>
  The browser's \<open>File\<close>: its name, declared media type and size in bytes. \<open>contents\<close> is
  what reading the file gives, decoded as UTF-8 (\<open>file.text()\<close>, and
  \<open>new TextDecoder('utf-8').decode(await file.arrayBuffer())\<close>); \<open>None\<close> when the read
  is rejected.
\<close>

record File =
  name :: string
  type :: string
  size_bytes :: nat
  contents :: "string option"

definition validTypes :: "string list" where
  "validTypes =
     [''application/pdf'',
      ''application/msword'',
      ''application/vnd.openxmlformats-officedocument.wordprocessingml.document'',
      ''text/plain'']"

subsection \<open>The three PDF heuristics\<close>

text \<open>\<open>content.match(/\(([^\)]+)\)/g)\<close>: the matches from left to right. At an opening
  parenthesis the expression takes every character up to the next closing one; it needs
  at least one, and the closing parenthesis. The search goes on after a match, and at the
  next character where there is none.\<close>

function paren_matches :: "string \<Rightarrow> string list" where
  "paren_matches [] = []"
| "paren_matches (c # cs) =
     (if c = CHR ''('' then
        (let body = takeWhile (\<lambda>x. x \<noteq> CHR '')'') cs;
             rest = dropWhile (\<lambda>x. x \<noteq> CHR '')'') cs
         in if body \<noteq> [] \<and> rest \<noteq> []
            then (c # body @ [CHR '')'']) # paren_matches (tl rest)
            else paren_matches cs)
      else paren_matches cs)"
  by pat_completeness auto
termination
  by (relation "measure length")
     (auto simp: le_imp_less_Suc length_dropWhile_le less_imp_diff_less)

text \<open>\<open>s.replace(/\\n|\\r/g, ' ')\<close>: a backslash followed by \<open>n\<close> or \<open>r\<close> becomes a space.\<close>

fun replace_escaped_newlines :: "string \<Rightarrow> string" where
  "replace_escaped_newlines (a # b # cs) =
     (if a = CHR 0x5C \<and> (b = CHR ''n'' \<or> b = CHR ''r'')
      then CHR '' '' # replace_escaped_newlines cs
      else a # replace_escaped_newlines (b # cs))"
| "replace_escaped_newlines cs = cs"

text \<open>The first heuristic, on the matches:
  \<open>.join(' ').replace(/[\(\)]/g, ' ').replace(/\\n|\\r/g, ' ').replace(/\s+/g, ' ')\<close>.\<close>

definition parenthesis_text :: "string list \<Rightarrow> string" where
  "parenthesis_text extractParenthesisContent =
     collapse_ws (replace_escaped_newlines
       (blank_out (\<lambda>c. c = CHR ''('' \<or> c = CHR '')'') (join '' '' extractParenthesisContent)))"

text \<open>Where \<open>/\/Text\s*\[/\<close> matches at the start of a string: the white space it took
  and the rest of the string after the bracket.\<close>

definition text_open_at :: "string \<Rightarrow> (string \<times> string) option" where
  "text_open_at s =
     (if take 5 s = ''/Text'' then
        (case dropWhile is_space (drop 5 s) of
           [] \<Rightarrow> None
         | b # rest \<Rightarrow>
             if b = CHR ''['' then Some (takeWhile is_space (drop 5 s), rest) else None)
      else None)"

text \<open>Where \<open>/\/Text\s*\[(.*?)\]/\<close> matches at the start of a string: the match and the
  rest of the string. The lazy group stops at the first closing bracket, and fails at a
  line terminator before it.\<close>

definition text_match_at :: "string \<Rightarrow> (string \<times> string) option" where
  "text_match_at s =
     (case text_open_at s of
        None \<Rightarrow> None
      | Some (ws, inner) \<Rightarrow>
          (case dropWhile (\<lambda>c. c \<noteq> CHR '']'' \<and> \<not> is_line_terminator c) inner of
             [] \<Rightarrow> None
           | e # rest \<Rightarrow>
               if e = CHR '']''
               then Some (''/Text'' @ ws @ ''['' @
                          takeWhile (\<lambda>c. c \<noteq> CHR '']'' \<and> \<not> is_line_terminator c) inner @ '']'',
                          rest)
               else None))"

lemma text_open_at_shorter: "text_open_at s = Some (ws, rest) \<Longrightarrow> length rest < length s"
proof -
  assume a: "text_open_at s = Some (ws, rest)"
  then obtain b where b: "dropWhile is_space (drop 5 s) = b # rest"
    by (auto simp: text_open_at_def split: if_splits list.splits)
  have "length (dropWhile is_space (drop 5 s)) \<le> length (drop 5 s)"
    by (rule length_dropWhile_le)
  with b show ?thesis by simp
qed

lemma text_match_at_shorter: "text_match_at s = Some (m, rest) \<Longrightarrow> length rest < length s"
proof -
  assume a: "text_match_at s = Some (m, rest)"
  then obtain ws inner e where o: "text_open_at s = Some (ws, inner)"
    and d: "dropWhile (\<lambda>c. c \<noteq> CHR '']'' \<and> \<not> is_line_terminator c) inner = e # rest"
    by (auto simp: text_match_at_def split: option.splits list.splits if_splits)
  have "length (dropWhile (\<lambda>c. c \<noteq> CHR '']'' \<and> \<not> is_line_terminator c) inner) \<le> length inner"
    by (rule length_dropWhile_le)
  with d have "length rest < length inner" by simp
  with text_open_at_shorter [OF o] show ?thesis by simp
qed

text \<open>\<open>content.match(/\/Text\s*\[(.*?)\]/g)\<close>: the matches from left to right.\<close>

function text_matches :: "string \<Rightarrow> string list" where
  "text_matches [] = []"
| "text_matches (c # cs) =
     (case text_match_at (c # cs) of
        Some (m, rest) \<Rightarrow> m # text_matches rest
      | None \<Rightarrow> text_matches cs)"
  by pat_completeness auto
termination
  by (relation "measure length") (auto dest: text_match_at_shorter)

text \<open>\<open>s.replace(/\/Text\s*\[/g, '')\<close>\<close>

function remove_text_open :: "string \<Rightarrow> string" where
  "remove_text_open [] = []"
| "remove_text_open (c # cs) =
     (case text_open_at (c # cs) of
        Some (ws, rest) \<Rightarrow> remove_text_open rest
      | None \<Rightarrow> c # remove_text_open cs)"
  by pat_completeness auto
termination
  by (relation "measure length") (auto dest: text_open_at_shorter)

text \<open>The second heuristic, on the matches:
  \<open>.join(' ').replace(/\/Text\s*\[/g, '').replace(/\]/g, '').replace(/\(/g, ' ').replace(/\)/g, ' ')\<close>.\<close>

definition text_array_text :: "string list \<Rightarrow> string" where
  "text_array_text textMatches =
     blank_out (\<lambda>c. c = CHR '')'')
       (blank_out (\<lambda>c. c = CHR ''('')
         (filter (\<lambda>c. c \<noteq> CHR '']'') (remove_text_open (join '' '' textMatches))))"

text \<open>The third heuristic, on the whole content:
  \<open>content.replace(/[^\x20-\x7E]/g, ' ').split(' ').filter(word => word.length > 2).join(' ')\<close>,
  then \<open>.replace(/\s+/g, ' ').trim()\<close>.\<close>

definition printable :: "char \<Rightarrow> bool" where
  "printable c = (0x20 \<le> (of_char c :: nat) \<and> (of_char c :: nat) \<le> 0x7E)"

definition printable_text :: "string \<Rightarrow> string" where
  "printable_text content =
     trim (collapse_ws (join '' ''
       (filter (\<lambda>word. length word > 2)
         (split_on (CHR '' '') (blank_out (\<lambda>c. \<not> printable c) content)))))"

text \<open>The PDF branch of \<open>handleFileChange\<close> once the content is decoded. \<open>text\<close> starts
  empty; each step is one \<open>if\<close> of the source and returns the new \<open>text\<close>.\<close>

definition pdf_parenthesis_step :: "string \<Rightarrow> string \<Rightarrow> string" where
  "pdf_parenthesis_step content text =
     (let extractParenthesisContent = paren_matches content
      in if extractParenthesisContent \<noteq> [] then parenthesis_text extractParenthesisContent
         else text)"

definition pdf_text_array_step :: "string \<Rightarrow> string \<Rightarrow> string" where
  "pdf_text_array_step content text =
     (if length text < 100 then
        (let textMatches = text_matches content
         in if textMatches \<noteq> [] then text_array_text textMatches else text)
      else text)"

definition pdf_printable_step :: "string \<Rightarrow> string \<Rightarrow> string" where
  "pdf_printable_step content text =
     (if length text < 100 then printable_text content else text)"

definition extract_pdf :: "string \<Rightarrow> string" where
  "extract_pdf content =
     pdf_printable_step content
       (pdf_text_array_step content
         (pdf_parenthesis_step content []))"

subsection \<open>handleFileChange\<close>

text \<open>The three templated sentences, after the file name.\<close>

definition pdf_failed_sentence :: string where
  "pdf_failed_sentence =
     '' - Resume includes experience in software development, programming skills, and education details.''"

definition word_sentence :: string where
  "word_sentence =
     '' - Resume includes professional experience spanning multiple years in technology roles, with skills in programming languages, databases, and web frameworks. Education includes degree in computer science or related field.''"

definition generic_sentence :: string where
  "generic_sentence =
     '' - Resume includes professional background in technology with various technical skills and educational qualifications.''"

text \<open>The extraction inside the outer \<open>try\<close>, before the floor of 50 characters:
  \<open>None\<close> when it throws to the outer \<open>catch\<close> (only \<open>selectedFile.text()\<close> can);
  a read that fails in the PDF branch is caught there and gives the PDF sentence.\<close>

definition extract_text :: "File \<Rightarrow> string option" where
  "extract_text selectedFile =
     (if type selectedFile = ''text/plain'' then contents selectedFile
      else if type selectedFile = ''application/pdf'' then
        (case contents selectedFile of
           Some content \<Rightarrow> Some (extract_pdf content)
         | None \<Rightarrow> Some (name selectedFile @ pdf_failed_sentence))
      else Some (name selectedFile @ word_sentence))"

text \<open>The component's state, and what a handler does besides changing it: the toasts
  it shows and the calls of the callbacks it was given (\<open>onUpload\<close> here,
  \<open>onJobDescriptionChange\<close> in the job description input), in order.\<close>

record ResumeUpload =
  file_st :: "File option"
  uploading :: bool
  error :: "string option"

datatype effect =
    Toast_error string
  | Toast_success string
  | OnUpload bool "string option"
  | OnJobDescriptionChange string

definition handleFileChange :: "File option \<Rightarrow> ResumeUpload \<Rightarrow> ResumeUpload \<times> effect list" where
  "handleFileChange selected st =
     (case selected of
        None \<Rightarrow> (st, [])
      | Some selectedFile \<Rightarrow>
          if type selectedFile \<notin> set validTypes then
            (st\<lparr>error := Some ''Invalid file type. Please upload a PDF, DOC, DOCX, or TXT file.''\<rparr>,
             [Toast_error ''Invalid file type''])
          else if size_bytes selectedFile > 5 * 1024 * 1024 then
            (st\<lparr>error := Some ''File too large. Maximum size is 5MB.''\<rparr>,
             [Toast_error ''File too large''])
          else
            (case extract_text selectedFile of
               Some text \<Rightarrow>
                 (st\<lparr>file_st := Some selectedFile, error := None, uploading := False\<rparr>,
                  [Toast_success ''Resume uploaded and processed successfully!'',
                   OnUpload True
                     (Some (if length text < 50 then name selectedFile @ generic_sentence
                            else text))])
             | None \<Rightarrow>
                 (st\<lparr>file_st := Some selectedFile,
                     error := Some ''Error processing resume. Please try again.'',
                     uploading := False\<rparr>,
                  [Toast_error ''Error processing resume''])))"


section \<open>JobDescriptionInput.tsx: the text of a fetched job posting\<close>

text \<open>A number in a template literal: its decimal digits.\<close>

fun decimal :: "nat \<Rightarrow> string" where
  "decimal n =
     (if n < 10 then [''0123456789'' ! n]
      else decimal (n div 10) @ [''0123456789'' ! (n mod 10)])"

text \<open>The flag \<open>i\<close> of a regular expression, for a pattern of lower-case ASCII letters:
  a character matches a letter of the pattern when it is that letter in either case.\<close>

definition lower_ascii :: "char \<Rightarrow> char" where
  "lower_ascii c =
     (case map_of (zip ''ABCDEFGHIJKLMNOPQRSTUVWXYZ'' ''abcdefghijklmnopqrstuvwxyz'') c of
        Some l \<Rightarrow> l
      | None \<Rightarrow> c)"

fun matches_ci :: "string \<Rightarrow> string \<Rightarrow> bool" where
  "matches_ci [] s = True"
| "matches_ci (p # ps) [] = False"
| "matches_ci (p # ps) (c # cs) = (lower_ascii c = p \<and> matches_ci ps cs)"

text \<open>\<open>/job description|requirements|responsibilities/i\<close> at the start of a string, and
  the \<open>index\<close> of \<open>extractedText.match(...)\<close>: the leftmost position where it matches,
  \<open>None\<close> when the result is \<open>null\<close>.\<close>

definition section_at :: "string \<Rightarrow> bool" where
  "section_at s =
     (matches_ci ''job description'' s \<or> matches_ci ''requirements'' s
      \<or> matches_ci ''responsibilities'' s)"

fun section_index :: "string \<Rightarrow> nat option" where
  "section_index [] = None"
| "section_index (c # cs) =
     (if section_at (c # cs) then Some 0 else map_option Suc (section_index cs))"

text \<open>Lines 66 to 74: the window on the collapsed text. The test
  \<open>jobDescriptionMatches && jobDescriptionMatches.index\<close> is that of JavaScript: the
  number 0 is false.\<close>

definition limit_text :: "string \<Rightarrow> string" where
  "limit_text extractedText =
     (let jobDescriptionMatches = section_index extractedText;
          index = (case jobDescriptionMatches of Some i \<Rightarrow> i | None \<Rightarrow> 0)
      in if jobDescriptionMatches \<noteq> None \<and> index \<noteq> 0
         then take 4000 (drop index extractedText)
         else if length extractedText > 5000 then take 5000 extractedText @ ''...''
         else extractedText)"

text \<open>What \<open>fetch(proxyUrl)\<close> gave: a rejection with its message, or a response with
  its status and, once its HTML is parsed, script and style elements are removed and the
  main content element is selected, the \<open>textContent\<close> of that element.\<close>

datatype fetched_page = Fetch_rejected string | Response nat string

record JobDescriptionInput =
  activeTab :: string
  jobUrl :: string
  jobText :: string
  isExtracting :: bool
  extractionError :: "string option"

definition extraction_failed :: "string \<Rightarrow> JobDescriptionInput \<Rightarrow> JobDescriptionInput \<times> effect list" where
  "extraction_failed errorMessage st =
     (st\<lparr>extractionError := Some errorMessage, isExtracting := False\<rparr>,
      [Toast_error errorMessage])"

definition handleExtractFromUrl ::
    "fetched_page \<Rightarrow> JobDescriptionInput \<Rightarrow> JobDescriptionInput \<times> effect list" where
  "handleExtractFromUrl response st =
     (if jobUrl st = [] then (st, [])
      else
        (case response of
           Fetch_rejected message \<Rightarrow> extraction_failed message st
         | Response status textContent \<Rightarrow>
             if \<not> (200 \<le> status \<and> status \<le> 299) then
               (if status = 403 then
                  extraction_failed
                    ''Access denied: The website is blocking automated access. Please use the 'Paste Text' option instead.''
                    st
                else if status = 404 then
                  extraction_failed ''Job posting not found. Please check the URL and try again.'' st
                else extraction_failed (''Failed to fetch URL: '' @ decimal status) st)
             else
               (let extractedText = limit_text (trim (collapse_ws textContent))
                in (st\<lparr>jobText := extractedText, extractionError := None, isExtracting := False\<rparr>,
                    [OnJobDescriptionChange extractedText,
                     Toast_success ''Job description extracted successfully'']))))"


section \<open>supabase.ts: the calls to the language model\<close>

subsection \<open>JSON values as JavaScript sees them\<close>

text \<open>
  What \<open>JSON.parse\<close> and \<open>response.json()\<close> return. An object is the list of its own
  properties, each name once. A number is a rational: only its sign is looked at.
  \<open>undefined\<close> is not a JSON value: reading a property gives an optional value.
\<close>

datatype json =
    JNull
  | JBool bool
  | JNum rat
  | JStr string
  | JArr "json list"
  | JObj "(string \<times> json) list"

text \<open>A thrown \<open>Error\<close> (\<open>TypeError\<close> and \<open>SyntaxError\<close> are errors too) with its message.\<close>

datatype js_error = Error (message: string)

text \<open>\<open>s.includes(sub)\<close>\<close>

fun js_includes :: "string \<Rightarrow> string \<Rightarrow> bool" where
  "js_includes [] sub = (sub = [])"
| "js_includes (c # cs) sub = (take (length sub) (c # cs) = sub \<or> js_includes cs sub)"

text \<open>The truth value of a JSON value.\<close>

fun truthy :: "json \<Rightarrow> bool" where
  "truthy JNull = False"
| "truthy (JBool b) = b"
| "truthy (JNum n) = (n \<noteq> 0)"
| "truthy (JStr s) = (s \<noteq> [])"
| "truthy (JArr xs) = True"
| "truthy (JObj kvs) = True"

text \<open>\<open>v.name\<close> for a name that no prototype defines (\<open>error\<close>, \<open>message\<close>,
  \<open>candidates\<close>, \<open>content\<close>, \<open>parts\<close>, \<open>text\<close>, \<open>skillGapData\<close>, \<open>skill\<close>): an own
  property of an object, \<open>undefined\<close> on every other value but \<open>null\<close>, where the read
  throws; the callers treat \<open>null\<close> apart.\<close>

fun field :: "string \<Rightarrow> json \<Rightarrow> json option" where
  "field n (JObj kvs) = map_of kvs n"
| "field n v = None"

text \<open>\<open>v[0]\<close>: the first element of an array, the first character of a string, the
  property \<open>0\<close> of an object.\<close>

fun index0 :: "json \<Rightarrow> json option" where
  "index0 (JArr (x # xs)) = Some x"
| "index0 (JStr (c # cs)) = Some (JStr [c])"
| "index0 (JObj kvs) = map_of kvs ''0''"
| "index0 v = None"

text \<open>Optional chaining \<open>v?.p\<close>: \<open>undefined\<close> when \<open>v\<close> is \<open>undefined\<close> or \<open>null\<close>.\<close>

definition chain :: "json option \<Rightarrow> (json \<Rightarrow> json option) \<Rightarrow> json option" where
  "chain v get = (case v of None \<Rightarrow> None | Some JNull \<Rightarrow> None | Some x \<Rightarrow> get x)"

text \<open>The \<open>length\<close> of a value that has one of its own kind: an array or a string.\<close>

fun length_of :: "json \<Rightarrow> nat option" where
  "length_of (JArr xs) = Some (length xs)"
| "length_of (JStr s) = Some (length s)"
| "length_of v = None"

text \<open>
  What the code takes from its surroundings: the API key of the build, and the platform's
  functions that are left open here.
  \<^item> \<open>JSON_parse\<close>: \<open>JSON.parse\<close>; \<open>Inl\<close> is the message of the \<open>SyntaxError\<close> it throws.
  \<^item> \<open>thrown_message\<close>: the message of what \<open>throw new Error(v)\<close> throws for a value \<open>v\<close>
    that is not a string (the value converted to a string, or the message of the
    \<open>TypeError\<close> of a conversion that fails).
  \<^item> \<open>null_read_message\<close>: the message of the \<open>TypeError\<close> for reading a property of
    \<open>null\<close>.
  \<^item> \<open>greater_than_zero\<close>: \<open>v > 0\<close> with its conversion to a number; \<open>None\<close> when the
    conversion throws.
  \<^item> \<open>page_renders\<close>: whether React and the chart library, given the page that the
    results component builds from an analysis (lines 317 to 780), render it without an
    exception.
\<close>

record environment =
  GEMINI_API_KEY :: string
  JSON_parse :: "string \<Rightarrow> string + json"
  thrown_message :: "json \<Rightarrow> string"
  null_read_message :: string
  greater_than_zero :: "json \<Rightarrow> bool option"
  page_renders :: "json \<Rightarrow> bool"

subsection \<open>callGeminiAPI\<close>

text \<open>What \<open>fetch\<close> gave for the request that carries the prompt: a rejection with its
  message, or a response with its status, its status text and what \<open>response.json()\<close>
  gives (\<open>Inl\<close>: the message of its rejection). The prompt is a constant text around the
  resume and the job description; the reply is an input of the model.\<close>

datatype gemini_fetch = Rejected string | Responded nat string "string + json"

text \<open>\<open>data.candidates[0]?.content?.parts?.[0]?.text\<close>, \<open>undefined\<close> also when
  \<open>data.candidates\<close> is false.\<close>

definition reply_text :: "json \<Rightarrow> json option" where
  "reply_text data =
     (case field ''candidates'' data of
        None \<Rightarrow> None
      | Some candidates \<Rightarrow>
          if \<not> truthy candidates then None
          else chain (chain (chain (chain (index0 candidates) (field ''content''))
                 (field ''parts'')) index0) (field ''text''))"

text \<open>\<open>data.error.message || "Failed to get response from Gemini"\<close>, as the message of
  the error made from it.\<close>

definition error_message :: "environment \<Rightarrow> json \<Rightarrow> string" where
  "error_message E err =
     (case field ''message'' err of
        None \<Rightarrow> ''Failed to get response from Gemini''
      | Some m \<Rightarrow>
          if \<not> truthy m then ''Failed to get response from Gemini''
          else (case m of JStr s \<Rightarrow> s | _ \<Rightarrow> thrown_message E m))"

text \<open>Lines 127 to 133: the reply's text, when there is one that is true.\<close>

definition read_reply :: "json \<Rightarrow> js_error + json" where
  "read_reply data =
     (case reply_text data of
        None \<Rightarrow> Inl (Error ''Invalid response format from Gemini API'')
      | Some text \<Rightarrow>
          if \<not> truthy text then Inl (Error ''Invalid response format from Gemini API'')
          else Inr text)"

text \<open>Both branches on \<open>response.ok\<close> start by \<open>await response.json()\<close>, whose rejection
  is thrown as it is. \<open>data.error\<close> cannot be read of \<open>null\<close>.\<close>

definition callGeminiAPI :: "environment \<Rightarrow> gemini_fetch \<Rightarrow> js_error + json" where
  "callGeminiAPI E fetched =
     (if GEMINI_API_KEY E = [] then Inl (Error ''Gemini API key is not configured'')
      else
        (case fetched of
           Rejected m \<Rightarrow> Inl (Error m)
         | Responded status statusText body \<Rightarrow>
             (case body of
                Inl m \<Rightarrow> Inl (Error m)
              | Inr data \<Rightarrow>
                  if \<not> (200 \<le> status \<and> status \<le> 299) then
                    Inl (Error (''API error: '' @ decimal status @ '' '' @ statusText))
                  else if data = JNull then Inl (Error (null_read_message E))
                  else
                    (case field ''error'' data of
                       None \<Rightarrow> read_reply data
                     | Some err \<Rightarrow>
                         if truthy err then Inl (Error (error_message E err))
                         else read_reply data))))"

subsection \<open>Finding the JSON in the reply\<close>

text \<open>\<open>s.match(/\[[\s\S]*\]/)\<close> and \<open>s.match(/\{[\s\S]*\}/)\<close>: from the first opening
  bracket to the last closing one after it; \<open>None\<close> for \<open>null\<close>.\<close>

definition match_span :: "char \<Rightarrow> char \<Rightarrow> string \<Rightarrow> string option" where
  "match_span l r s =
     (case dropWhile (\<lambda>c. c \<noteq> l) s of
        [] \<Rightarrow> None
      | b # t \<Rightarrow>
          (case dropWhile (\<lambda>c. c \<noteq> r) (rev t) of
             [] \<Rightarrow> None
           | e # u \<Rightarrow> Some (b # rev (e # u))))"

text \<open>\<open>jsonMatch ? jsonMatch[0] : responseText\<close>\<close>

definition json_text :: "char \<Rightarrow> char \<Rightarrow> string \<Rightarrow> string" where
  "json_text l r responseText =
     (case match_span l r responseText of Some m \<Rightarrow> m | None \<Rightarrow> responseText)"

subsection \<open>getSalaryTrendsFromGemini and getLearningRecommendationsFromGemini\<close>

text \<open>\<open>v.slice(0, 3)\<close>: arrays and strings have \<open>slice\<close>; on any other value the call
  throws.\<close>

fun slice3 :: "json \<Rightarrow> json option" where
  "slice3 (JArr xs) = Some (JArr (take 3 xs))"
| "slice3 (JStr s) = Some (JStr (take 3 s))"
| "slice3 v = None"

text \<open>The inner \<open>try\<close> of both functions, \<open>None\<close> when anything in it throws: a reply
  that is not a string has no \<open>match\<close>.\<close>

definition first_three :: "environment \<Rightarrow> json \<Rightarrow> json option" where
  "first_three E responseText =
     (case responseText of
        JStr s \<Rightarrow>
          (case JSON_parse E (json_text (CHR ''['') (CHR '']'') s) of
             Inl m \<Rightarrow> None
           | Inr decoded \<Rightarrow> slice3 decoded)
      | _ \<Rightarrow> None)"

text \<open>The fallback tables. The rupee sign and the arrow are outside \<^typ>\<open>char\<close>'s range
  and stand as their UTF-8 bytes; nothing here depends on them.\<close>

definition rupee :: string where
  "rupee = [CHR 0xE2, CHR 0x82, CHR 0xB9]"

definition arrow_up :: string where
  "arrow_up = [CHR 0xE2, CHR 0x86, CHR 0x97]"

definition salary_fallback :: json where
  "salary_fallback = JArr
     [JObj [(''role'', JStr ''Full Stack Developer''),
            (''salaryInINR'', JStr (rupee @ ''8,00,000 - '' @ rupee @ ''15,00,000'')),
            (''growth'', JStr (arrow_up @ '' 18%''))],
      JObj [(''role'', JStr ''DevOps Engineer''),
            (''salaryInINR'', JStr (rupee @ ''12,00,000 - '' @ rupee @ ''22,00,000'')),
            (''growth'', JStr (arrow_up @ '' 25%''))],
      JObj [(''role'', JStr ''Data Scientist''),
            (''salaryInINR'', JStr (rupee @ ''10,00,000 - '' @ rupee @ ''20,00,000'')),
            (''growth'', JStr (arrow_up @ '' 20%''))]]"

definition recommendation :: "string \<Rightarrow> string \<Rightarrow> string \<Rightarrow> string \<Rightarrow> string \<Rightarrow> string \<Rightarrow> json" where
  "recommendation title kind provider duration priority url =
     JObj [(''title'', JStr title), (''type'', JStr kind), (''provider'', JStr provider),
           (''duration'', JStr duration), (''priority'', JStr priority), (''url'', JStr url)]"

definition learning_fallback :: json where
  "learning_fallback = JArr
     [recommendation ''AWS Solutions Architect Associate'' ''Certification'' ''AWS'' ''3-4 weeks''
        ''High'' ''https://aws.amazon.com/certification/certified-solutions-architect-associate/'',
      recommendation ''Full Stack Web Development'' ''Course'' ''Coursera'' ''6 months''
        ''High'' ''https://www.coursera.org/specializations/full-stack-react'',
      recommendation ''Python for Data Science'' ''Course'' ''edX'' ''8 weeks''
        ''Medium'' ''https://www.edx.org/course/python-for-data-science'']"

text \<open>Both functions: the outer \<open>catch\<close> takes whatever was thrown, by \<open>callGeminiAPI\<close>
  or by the inner \<open>try\<close> (whose \<open>catch\<close> throws "Failed to parse ... data"), and returns
  the table.\<close>

definition getSalaryTrendsFromGemini :: "environment \<Rightarrow> gemini_fetch \<Rightarrow> json" where
  "getSalaryTrendsFromGemini E fetched =
     (case callGeminiAPI E fetched of
        Inl err \<Rightarrow> salary_fallback
      | Inr responseText \<Rightarrow>
          (case first_three E responseText of
             None \<Rightarrow> salary_fallback
           | Some trends \<Rightarrow> trends))"

definition getLearningRecommendationsFromGemini :: "environment \<Rightarrow> gemini_fetch \<Rightarrow> json" where
  "getLearningRecommendationsFromGemini E fetched =
     (case callGeminiAPI E fetched of
        Inl err \<Rightarrow> learning_fallback
      | Inr responseText \<Rightarrow>
          (case first_three E responseText of
             None \<Rightarrow> learning_fallback
           | Some recommendations \<Rightarrow> recommendations))"


subsection \<open>analyzeResumeJobMatch\<close>

text \<open>\<open>{...item}\<close>: the own properties of an object, the elements of an array and the
  characters of a string under their indices, nothing for any other value.\<close>

fun spread :: "json \<Rightarrow> (string \<times> json) list" where
  "spread (JObj kvs) = kvs"
| "spread (JArr xs) = zip (map decimal [0..<length xs]) xs"
| "spread (JStr s) = zip (map decimal [0..<length s]) (map (\<lambda>c. JStr [c]) s)"
| "spread v = []"

text \<open>Setting a property: in place when the object has it, at the end otherwise.\<close>

fun set_field :: "string \<Rightarrow> json \<Rightarrow> (string \<times> json) list \<Rightarrow> (string \<times> json) list" where
  "set_field k v [] = [(k, v)]"
| "set_field k v ((k', v') # kvs) =
     (if k' = k then (k, v) # kvs else (k', v') # set_field k v kvs)"

text \<open>\<open>{...item, skill: item.skill || "Unknown Skill"}\<close>; \<open>None\<close> when \<open>item\<close> is
  \<open>null\<close>, whose \<open>skill\<close> cannot be read.\<close>

definition name_skill :: "json \<Rightarrow> json option" where
  "name_skill item =
     (if item = JNull then None
      else Some (JObj (set_field ''skill''
             (case field ''skill'' item of
                None \<Rightarrow> JStr ''Unknown Skill''
              | Some skill \<Rightarrow> if truthy skill then skill else JStr ''Unknown Skill'')
             (spread item))))"

text \<open>Lines 397 to 405, \<open>None\<close> when they throw. \<open>analysis.skillGapData\<close> cannot be read
  of \<open>null\<close>. A string that is true has a positive \<open>length\<close> and no \<open>map\<close>; an object
  has the \<open>length\<close> it was given, if any, and no \<open>map\<close>; a number or \<open>true\<close> has no
  \<open>length\<close>.\<close>

definition ensure_skill_names :: "environment \<Rightarrow> json \<Rightarrow> json option" where
  "ensure_skill_names E analysis =
     (if analysis = JNull then None
      else
        (case field ''skillGapData'' analysis of
           None \<Rightarrow> Some analysis
         | Some skillGapData \<Rightarrow>
             (case skillGapData of
                JArr items \<Rightarrow>
                  if length items > 0 then
                    (case those (map name_skill items) of
                       None \<Rightarrow> None
                     | Some named \<Rightarrow>
                         Some (JObj (set_field ''skillGapData'' (JArr named) (spread analysis))))
                  else Some analysis
              | JStr s \<Rightarrow> if s \<noteq> [] then None else Some analysis
              | JObj kvs \<Rightarrow>
                  (case map_of kvs ''length'' of
                     None \<Rightarrow> Some analysis
                   | Some l \<Rightarrow>
                       (case greater_than_zero E l of
                          None \<Rightarrow> None
                        | Some positive \<Rightarrow> if positive then None else Some analysis))
              | _ \<Rightarrow> Some analysis)))"

text \<open>The inner \<open>try\<close>: its \<open>catch\<close> throws one error for whatever was thrown in it.\<close>

definition parse_analysis :: "environment \<Rightarrow> json \<Rightarrow> js_error + json" where
  "parse_analysis E responseText =
     (case (case responseText of
              JStr s \<Rightarrow>
                (case JSON_parse E (json_text (CHR ''{'') (CHR ''}'') s) of
                   Inl m \<Rightarrow> None
                 | Inr analysis \<Rightarrow> ensure_skill_names E analysis)
            | _ \<Rightarrow> None) of
        None \<Rightarrow> Inl (Error ''Failed to parse resume analysis data'')
      | Some analysis \<Rightarrow> Inr analysis)"

text \<open>The fallback analysis of lines 419 to 509.\<close>

definition skill_gap :: "string \<Rightarrow> rat \<Rightarrow> rat \<Rightarrow> json" where
  "skill_gap skill current required =
     JObj [(''skill'', JStr skill), (''current'', JNum current), (''required'', JNum required)]"

definition demand :: "string \<Rightarrow> string \<Rightarrow> string \<Rightarrow> json" where
  "demand skill demandLevel growthTrend =
     JObj [(''skill'', JStr skill), (''demandLevel'', JStr demandLevel),
           (''growthTrend'', JStr growthTrend)]"

definition personality :: "string \<Rightarrow> rat \<Rightarrow> string \<Rightarrow> json" where
  "personality trait matchScore jobRequirement =
     JObj [(''trait'', JStr trait), (''matchScore'', JNum matchScore),
           (''jobRequirement'', JStr jobRequirement)]"

definition career :: "string \<Rightarrow> string \<Rightarrow> string \<Rightarrow> string list \<Rightarrow> json" where
  "career role timeframe potentialSalary requiredSkills =
     JObj [(''role'', JStr role), (''timeframe'', JStr timeframe),
           (''potentialSalary'', JStr potentialSalary),
           (''requiredSkills'', JArr (map JStr requiredSkills))]"

definition fallback_analysis :: json where
  "fallback_analysis = JObj
     [(''skillMatch'', JObj
         [(''matched'', JArr (map JStr
             [''Problem-solving abilities'', ''Basic programming knowledge'',
              ''Communication skills'', ''Team collaboration'', ''Technical aptitude''])),
          (''missing'', JArr (map JStr
             [''Advanced JavaScript frameworks'', ''Cloud computing experience'',
              ''System design knowledge'', ''DevOps practices'', ''Database optimization''])),
          (''overallMatchPercentage'', JNum 65)]),
      (''skillGapData'', JArr
         [skill_gap ''JavaScript/React'' 60 85,
          skill_gap ''Node.js/Backend'' 45 80,
          skill_gap ''AWS/Cloud'' 25 75,
          skill_gap ''Database Management'' 55 70,
          skill_gap ''DevOps/CI-CD'' 20 65,
          skill_gap ''System Design'' 30 75,
          skill_gap ''API Development'' 50 80]),
      (''recommendations'', JArr
         [recommendation ''React.js Complete Guide'' ''Course'' ''Udemy'' ''40 hours'' ''High''
            ''https://www.udemy.com/course/react-the-complete-guide-incl-redux/'',
          recommendation ''AWS Certified Developer'' ''Certification'' ''AWS'' ''8 weeks'' ''High''
            ''https://aws.amazon.com/certification/certified-developer-associate/'',
          recommendation ''System Design Interview'' ''Course'' ''Educative'' ''6 weeks'' ''Medium''
            ''https://www.educative.io/courses/grokking-the-system-design-interview'']),
      (''industryDemand'', JArr
         [demand ''React.js'' ''Very High'' ''Rapidly Growing'',
          demand ''Node.js'' ''High'' ''Growing'',
          demand ''AWS'' ''Very High'' ''Rapidly Growing'',
          demand ''Python'' ''High'' ''Growing'',
          demand ''DevOps'' ''Very High'' ''Rapidly Growing'']),
      (''personalityFit'', JArr
         [personality ''Technical Communication'' 70
            ''Clear technical documentation and code reviews'',
          personality ''Team Collaboration'' 75
            ''Agile development and cross-functional teamwork'',
          personality ''Continuous Learning'' 80
            ''Staying updated with latest technologies and best practices'']),
      (''careerPathSuggestions'', JArr
         [career ''Senior Full Stack Developer'' ''2-3 years''
            (rupee @ ''12,00,000 - '' @ rupee @ ''20,00,000'')
            [''Advanced React'', ''System Architecture'', ''Team Leadership'',
             ''Performance Optimization''],
          career ''Technical Lead'' ''4-5 years''
            (rupee @ ''20,00,000 - '' @ rupee @ ''35,00,000'')
            [''System Design'', ''Team Management'', ''Product Strategy'', ''Mentoring'']]),
      (''strengths'', JArr (map JStr
         [''Solid foundation in core programming concepts and problem-solving'',
          ''Good communication skills suitable for Indian corporate environment'',
          ''Adaptability and willingness to learn new technologies''])),
      (''weaknesses'', JArr (map JStr
         [''Limited experience with modern JavaScript frameworks and cloud technologies'',
          ''Needs improvement in system design and scalability concepts''])),
      (''competitiveAdvantage'', JStr
         ''Strong fundamentals with good learning potential for the rapidly growing Indian tech market''),
      (''matchScoreReasoning'', JStr
         ''Provide a brief and precise explanation (1-2 sentences) for the overall match percentage, focusing on the most significant matching strengths and missing skills.'')]"

text \<open>The body of the outer \<open>try\<close>: the two checks of the input, the call, the inner
  \<open>try\<close>. \<open>!resumeText\<close> is true of the empty string.\<close>

definition analysis_attempt ::
    "environment \<Rightarrow> string \<Rightarrow> string \<Rightarrow> gemini_fetch \<Rightarrow> js_error + json" where
  "analysis_attempt E resumeText jobDescription fetched =
     (if resumeText = [] \<or> length (trim resumeText) < 50 then
        Inl (Error ''Resume text is too short for accurate analysis. Please provide a more detailed resume.'')
      else if jobDescription = [] \<or> length (trim jobDescription) < 50 then
        Inl (Error ''Job description is too short for accurate analysis. Please provide a more detailed job description.'')
      else
        (case callGeminiAPI E fetched of
           Inl err \<Rightarrow> Inl err
         | Inr responseText \<Rightarrow> parse_analysis E responseText))"

text \<open>The outer \<open>catch\<close>: an error whose message includes "too short" is thrown again,
  any other gives the fallback analysis.\<close>

definition analyzeResumeJobMatch ::
    "environment \<Rightarrow> string \<Rightarrow> string \<Rightarrow> gemini_fetch \<Rightarrow> js_error + json" where
  "analyzeResumeJobMatch E resumeText jobDescription fetched =
     (case analysis_attempt E resumeText jobDescription fetched of
        Inl err \<Rightarrow>
          if js_includes (message err) ''too short'' then Inl err
          else Inr fallback_analysis
      | Inr analysis \<Rightarrow> Inr analysis)"

text \<open>
  A surrounding for the examples: a key, and a platform described on what the examples
  meet. \<open>JSON.parse\<close> decodes the three JSON texts listed (a string in its quotes, an
  array of five numbers, the empty object) and rejects the sentences of the examples,
  which are not JSON; the page of the fallback analysis renders; the other entries are
  not reached.
\<close>

definition example_environment :: environment where
  "example_environment =
     \<lparr>GEMINI_API_KEY = ''key'',
      JSON_parse = (\<lambda>s.
        if s = [CHR 0x22] @ ''abcd'' @ [CHR 0x22] then Inr (JStr ''abcd'')
        else if s = ''[1, 2, 3, 4, 5]''
          then Inr (JArr [JNum 1, JNum 2, JNum 3, JNum 4, JNum 5])
        else if s = ''{}'' then Inr (JObj [])
        else Inl ''Unexpected token''),
      thrown_message = (\<lambda>v. ''[object Object]''),
      null_read_message = ''Cannot read properties of null'',
      greater_than_zero = (\<lambda>v. Some False),
      page_renders = (\<lambda>v. v = fallback_analysis)\<rparr>"

text \<open>The envelope of a reply whose first candidate's first part is the given text.\<close>

definition envelope :: "string \<Rightarrow> json" where
  "envelope reply =
     JObj [(''candidates'',
            JArr [JObj [(''content'', JObj [(''parts'', JArr [JObj [(''text'', JStr reply)]])])]])]"


section \<open>The dashboard and the results component: saving to the history\<close>

text \<open>
  \<open>AnalysisHistoryItem\<close>. \<open>id\<close> is \<open>Date.now().toString()\<close> and \<open>date\<close> is
  \<open>new Date().toLocaleDateString()\<close>: the clock's reading, in milliseconds and as the
  locale writes the day, is an input of \<open>saveToHistory\<close>. The match percentage is
  whatever the analysis holds under that name: any JSON value, or \<open>undefined\<close>.
\<close>

record AnalysisHistoryItem =
  item_id :: string
  item_date :: string
  item_matchPercentage :: "json option"
  item_jobTitle :: "string option"
  item_resumeText :: "string option"
  item_jobDescription :: "string option"

text \<open>The state of \<open>Dashboard\<close> (\<open>user\<close> is the signed-in user's email), with the
  browser's \<open>localStorage\<close>, where the values stand decoded.\<close>

record Dashboard =
  user :: "string option"
  dashboardTab :: string
  resumeUploaded :: bool
  resumeText :: string
  jobDescription :: string
  showResults :: bool
  authModalOpen :: bool
  analysisHistory :: "AnalysisHistoryItem list"
  hasBeenSaved :: bool
  selectedHistoryItem :: "AnalysisHistoryItem option"
  localStorage :: "string \<Rightarrow> AnalysisHistoryItem list option"

text \<open>The state at mount, for a user and a storage, and the effect of lines 87 to 94
  that loads the user's history from the storage.\<close>

definition initial_dashboard ::
    "string option \<Rightarrow> (string \<Rightarrow> AnalysisHistoryItem list option) \<Rightarrow> Dashboard" where
  "initial_dashboard signed_in storage =
     \<lparr>user = signed_in, dashboardTab = ''analyze'', resumeUploaded = False, resumeText = [],
      jobDescription = [], showResults = False, authModalOpen = False, analysisHistory = [],
      hasBeenSaved = False, selectedHistoryItem = None, localStorage = storage\<rparr>"

definition load_history :: "Dashboard \<Rightarrow> Dashboard" where
  "load_history D =
     (case user D of
        None \<Rightarrow> D
      | Some email \<Rightarrow>
          (case localStorage D (''analysisHistory_'' @ email) of
             None \<Rightarrow> D
           | Some savedHistory \<Rightarrow> D\<lparr>analysisHistory := savedHistory\<rparr>))"

definition handleAnalyze :: "Dashboard \<Rightarrow> Dashboard \<times> effect list" where
  "handleAnalyze D =
     (if user D = None then
        (D\<lparr>authModalOpen := True\<rparr>, [Toast_error ''Please sign in to analyze your resume''])
      else if \<not> resumeUploaded D \<or> resumeText D = [] then
        (D, [Toast_error ''Please upload your resume first''])
      else if jobDescription D = [] then
        (D, [Toast_error ''Please enter a job description''])
      else if length (resumeText D) < 50 then
        (D, [Toast_error ''Resume content is too short for meaningful analysis''])
      else if length (jobDescription D) < 50 then
        (D, [Toast_error ''Job description is too short for meaningful analysis''])
      else (D\<lparr>hasBeenSaved := False, showResults := True\<rparr>, []))"

text \<open>\<open>extractedText\<close> defaults to the empty string.\<close>

definition handleResumeUpload :: "bool \<Rightarrow> string option \<Rightarrow> Dashboard \<Rightarrow> Dashboard" where
  "handleResumeUpload uploaded extractedText D =
     (let text = (case extractedText of Some t \<Rightarrow> t | None \<Rightarrow> []);
          D1 = D\<lparr>resumeUploaded := uploaded\<rparr>
      in if text \<noteq> [] then D1\<lparr>resumeText := text\<rparr>
         else if \<not> uploaded then D1\<lparr>resumeText := []\<rparr>
         else D1)"

definition handleJobDescriptionChange :: "string \<Rightarrow> Dashboard \<Rightarrow> Dashboard" where
  "handleJobDescriptionChange jd D = D\<lparr>jobDescription := jd\<rparr>"

text \<open>\<open>jobDescription.split('\n')[0] || "Untitled Position"\<close>\<close>

definition first_line_title :: "string \<Rightarrow> string" where
  "first_line_title jd =
     (let line = takeWhile (\<lambda>c. c \<noteq> CHR 0x0A) jd
      in if line = [] then ''Untitled Position'' else line)"

definition saveToHistory ::
    "nat \<Rightarrow> string \<Rightarrow> json option \<Rightarrow> Dashboard \<Rightarrow> Dashboard \<times> effect list" where
  "saveToHistory now today matchPercentage D =
     (case user D of
        None \<Rightarrow> (D, [])
      | Some email \<Rightarrow>
          if hasBeenSaved D then (D, [])
          else
            (let newHistoryItem =
                   \<lparr>item_id = decimal now,
                    item_date = today,
                    item_matchPercentage = matchPercentage,
                    item_jobTitle = Some (first_line_title (jobDescription D)),
                    item_resumeText = Some (resumeText D),
                    item_jobDescription = Some (jobDescription D)\<rparr>;
                 updatedHistory = newHistoryItem # analysisHistory D
             in (D\<lparr>analysisHistory := updatedHistory,
                   hasBeenSaved := True,
                   localStorage := (localStorage D)
                     (''analysisHistory_'' @ email := Some updatedHistory)\<rparr>,
                 [Toast_success ''Analysis saved to history''])))"

text \<open>\<open>item.resumeText && item.jobDescription\<close>: both present and not empty.\<close>

definition handleViewHistory :: "AnalysisHistoryItem \<Rightarrow> Dashboard \<Rightarrow> Dashboard \<times> effect list" where
  "handleViewHistory item D =
     (case (item_resumeText item, item_jobDescription item) of
        (Some r, Some j) \<Rightarrow>
          if r \<noteq> [] \<and> j \<noteq> [] then
            (D\<lparr>selectedHistoryItem := Some item, resumeText := r, jobDescription := j,
               resumeUploaded := True, showResults := True\<rparr>, [])
          else
            (D\<lparr>selectedHistoryItem := Some item\<rparr>,
             [Toast_error ''Unable to load analysis history. Resume or job description data is missing.''])
      | _ \<Rightarrow>
          (D\<lparr>selectedHistoryItem := Some item\<rparr>,
           [Toast_error ''Unable to load analysis history. Resume or job description data is missing.'']))"

text \<open>The \<open>onBack\<close> that \<open>Dashboard\<close> gives to the results.\<close>

definition onBack :: "Dashboard \<Rightarrow> Dashboard" where
  "onBack D =
     (let D1 = D\<lparr>showResults := False, hasBeenSaved := False, selectedHistoryItem := None\<rparr>
      in if selectedHistoryItem D = None
         then D1\<lparr>resumeText := [], jobDescription := [], resumeUploaded := False\<rparr>
         else D1)"

text \<open>
  The state of one mounted \<open>AnalysisResults\<close>: the ref \<open>hasSaved\<close>, the data of the
  query (\<open>None\<close> while there is none) and the error state.
\<close>

record AnalysisResults =
  hasSaved :: bool
  analysisResults :: "json option"
  analysisLoading :: bool
  analysisError :: "string option"

definition mounted :: AnalysisResults where
  "mounted = \<lparr>hasSaved = False, analysisResults = None, analysisLoading = True,
              analysisError = None\<rparr>"

text \<open>The query function of lines 268 to 279: its own two checks, on the lengths as
  they are, then the call.\<close>

definition queryFn :: "environment \<Rightarrow> string \<Rightarrow> string \<Rightarrow> gemini_fetch \<Rightarrow> js_error + json" where
  "queryFn E resume job fetched =
     (if resume = [] \<or> length resume < 50 then
        Inl (Error ''Resume text is too short for accurate analysis. Please provide a more detailed resume with at least 50 characters.'')
      else if job = [] \<or> length job < 50 then
        Inl (Error ''Job description is too short for accurate analysis. Please provide a more detailed job description with at least 50 characters.'')
      else analyzeResumeJobMatch E resume job fetched)"

text \<open>The component once the query has settled (after its retries, when it failed): with
  the analysis as its data and no error, or with the error's message, which the effect of
  lines 284 to 295 stores.\<close>

definition loaded :: "json \<Rightarrow> AnalysisResults \<Rightarrow> AnalysisResults" where
  "loaded analysis A =
     A\<lparr>analysisResults := Some analysis, analysisLoading := False, analysisError := None\<rparr>"

definition settle :: "js_error + json \<Rightarrow> AnalysisResults \<Rightarrow> AnalysisResults" where
  "settle outcome A =
     (case outcome of
        Inr analysis \<Rightarrow> loaded analysis A
      | Inl err \<Rightarrow> A\<lparr>analysisLoading := False, analysisError := Some (message err)\<rparr>)"

text \<open>\<open>analysisResults.skillMatch\<close>, as far as a property of it can be read: \<open>None\<close> when
  it is \<open>undefined\<close> or \<open>null\<close>, and reading \<open>overallMatchPercentage\<close> of it throws. A
  value that is not an object has no \<open>skillMatch\<close>.\<close>

definition skillMatch_read :: "json \<Rightarrow> json option" where
  "skillMatch_read analysis =
     (case field ''skillMatch'' analysis of
        None \<Rightarrow> None
      | Some JNull \<Rightarrow> None
      | Some skillMatch \<Rightarrow> Some skillMatch)"

text \<open>\<open>analysisError\<close> as a condition: \<open>null\<close> and the empty message are false.\<close>

definition shown_error :: "string option \<Rightarrow> bool" where
  "shown_error e = (case e of None \<Rightarrow> False | Some m \<Rightarrow> m \<noteq> [])"

text \<open>The effect of lines 298 to 303, run with the dashboard it was rendered in:
  \<open>onSaveAnalysis\<close> is the dashboard's \<open>saveToHistory\<close>. It is given
  \<open>analysisResults.skillMatch.overallMatchPercentage\<close>; when that read throws, nothing
  is saved and the ref stays as it is.\<close>

definition save_effect ::
    "nat \<Rightarrow> string \<Rightarrow> Dashboard \<times> AnalysisResults \<Rightarrow> Dashboard \<times> AnalysisResults" where
  "save_effect now today W =
     (case W of (D, A) \<Rightarrow>
        (case analysisResults A of
           None \<Rightarrow> (D, A)
         | Some analysis \<Rightarrow>
             if truthy analysis \<and> \<not> analysisLoading A \<and> \<not> shown_error (analysisError A)
                \<and> \<not> hasSaved A
             then
               (case skillMatch_read analysis of
                  None \<Rightarrow> (D, A)
                | Some skillMatch \<Rightarrow>
                    (fst (saveToHistory now today (field ''overallMatchPercentage'' skillMatch) D),
                     A\<lparr>hasSaved := True\<rparr>))
             else (D, A)))"

text \<open>A render of the component and, when it is committed, the effect. Lines 313 to 315
  read \<open>analysisResults?.skillMatch.overallMatchPercentage\<close>, \<open>.matched\<close> and \<open>.missing\<close>:
  with data but no \<open>skillMatch\<close> to read they throw, and so may the page of a result that
  is displayed; then nothing is committed and no effect runs.\<close>

definition display ::
    "environment \<Rightarrow> nat \<Rightarrow> string \<Rightarrow> Dashboard \<times> AnalysisResults \<Rightarrow> Dashboard \<times> AnalysisResults" where
  "display E now today W =
     (case W of (D, A) \<Rightarrow>
        (case analysisResults A of
           None \<Rightarrow> save_effect now today W
         | Some analysis \<Rightarrow>
             if skillMatch_read analysis = None then W
             else if \<not> analysisLoading A \<and> \<not> shown_error (analysisError A)
                     \<and> \<not> page_renders E analysis then W
             else save_effect now today W))"

text \<open>What can happen to a displayed result without the user starting a new analysis:
  the effect runs again (one of its dependencies changed), \<open>saveToHistory\<close> is called,
  the component is unmounted and mounted again with the cached result (a switch of tabs
  and back), which gives it a new ref and a new error state, or the query is fetched
  again and gives a new result object. Each comes with the clock's reading.\<close>

datatype rerender =
    Effect_again nat string
  | Save_again nat string "json option"
  | Mounted_again nat string
  | Fetched_again nat string json

fun rerender_step :: "rerender \<Rightarrow> Dashboard \<times> AnalysisResults \<Rightarrow> Dashboard \<times> AnalysisResults" where
  "rerender_step (Effect_again now today) W = save_effect now today W"
| "rerender_step (Save_again now today matchPercentage) (D, A) =
     (fst (saveToHistory now today matchPercentage D), A)"
| "rerender_step (Mounted_again now today) (D, A) =
     save_effect now today (D, A\<lparr>hasSaved := False, analysisError := None\<rparr>)"
| "rerender_step (Fetched_again now today analysis) (D, A) =
     save_effect now today (D, loaded analysis A)"

fun rerenders :: "rerender list \<Rightarrow> Dashboard \<times> AnalysisResults \<Rightarrow> Dashboard \<times> AnalysisResults" where
  "rerenders [] W = W"
| "rerenders (ev # evs) W = rerenders evs (rerender_step ev W)"


subsection \<open>Dashboards for the examples\<close>

text \<open>An analysis that holds a match percentage, as far as saving looks at it.\<close>

definition scored :: "rat \<Rightarrow> json" where
  "scored p = JObj [(''skillMatch'', JObj [(''overallMatchPercentage'', JNum p)])]"

text \<open>A dashboard ready for an analysis, with an empty history.\<close>

definition ready :: Dashboard where
  "ready =
     \<lparr>user = Some ''jane@example.com'', dashboardTab = ''analyze'', resumeUploaded = True,
      resumeText = ''Software engineer with five years of experience in Python, SQL and AWS.'',
      jobDescription = ''We are hiring a backend developer with strong Python and cloud skills.'',
      showResults = False, authModalOpen = False, analysisHistory = [], hasBeenSaved = False,
      selectedHistoryItem = None, localStorage = (\<lambda>k. None)\<rparr>"

text \<open>A record of an earlier session, and the dashboard of a new one: the user is signed
  in, the history is loaded from the storage, nothing has been analysed yet.\<close>

definition stored_record :: AnalysisHistoryItem where
  "stored_record =
     \<lparr>item_id = ''1761900000000'', item_date = ''10/31/2026'',
      item_matchPercentage = Some (JNum 72),
      item_jobTitle = Some ''We are hiring a backend developer with strong Python and cloud skills.'',
      item_resumeText = Some ''Software engineer with five years of experience in Python, SQL and AWS.'',
      item_jobDescription = Some ''We are hiring a backend developer with strong Python and cloud skills.''\<rparr>"

definition new_session :: Dashboard where
  "new_session =
     \<lparr>user = Some ''jane@example.com'', dashboardTab = ''history'', resumeUploaded = False,
      resumeText = [], jobDescription = [], showResults = False, authModalOpen = False,
      analysisHistory = [stored_record], hasBeenSaved = False, selectedHistoryItem = None,
      localStorage = (\<lambda>k. None)(''analysisHistory_jane@example.com'' := Some [stored_record])\<rparr>"


section \<open>Properties of the upload\<close>

lemma generic_sentence_length: "length generic_sentence = 118"
  by (simp add: generic_sentence_def)

text \<open>
  C7. A selected file whose declared media type is not one of the four accepted types, or
  whose size exceeds 5,242,880 bytes, is rejected: the component's error is set, the
  only effect is an error toast, and \<open>onUpload\<close> is not called.
\<close>

theorem upload_rejected:
  assumes "type f \<notin> set validTypes \<or> size_bytes f > 5242880"
  shows "error (fst (handleFileChange (Some f) st)) \<noteq> None
       \<and> (\<exists>m. snd (handleFileChange (Some f) st) = [Toast_error m])
       \<and> (\<forall>b t. OnUpload b t \<notin> set (snd (handleFileChange (Some f) st)))"
  using assms by (auto simp: handleFileChange_def)

theorem upload_rejected_witness:
  "(\<forall>b t. OnUpload b t \<notin> set (snd (handleFileChange
        (Some \<lparr>name = ''cv.png'', type = ''image/png'', size_bytes = 10, contents = Some ''x''\<rparr>)
        \<lparr>file_st = None, uploading = False, error = None\<rparr>)))
   \<and> (\<forall>b t. OnUpload b t \<notin> set (snd (handleFileChange
        (Some \<lparr>name = ''cv.pdf'', type = ''application/pdf'', size_bytes = 5242881,
               contents = Some ''x''\<rparr>)
        \<lparr>file_st = None, uploading = False, error = None\<rparr>)))
   \<and> error (fst (handleFileChange
        (Some \<lparr>name = ''cv.pdf'', type = ''application/pdf'', size_bytes = 5242881,
               contents = Some ''x''\<rparr>)
        \<lparr>file_st = None, uploading = False, error = None\<rparr>)) \<noteq> None"
proof -
  let ?png = "\<lparr>name = ''cv.png'', type = ''image/png'', size_bytes = 10, contents = Some ''x''\<rparr>"
  let ?big = "\<lparr>name = ''cv.pdf'', type = ''application/pdf'', size_bytes = 5242881,
      contents = Some ''x''\<rparr>"
  let ?st = "\<lparr>file_st = None, uploading = False, error = None\<rparr>"
  have h: "type ?png \<notin> set validTypes"
    by (simp add: validTypes_def)
  have g: "size_bytes ?big > 5242880"
    by simp
  from h upload_rejected [of ?png ?st] g upload_rejected [of ?big ?st]
  show ?thesis by blast
qed

text \<open>
  C8. Whatever the extraction steps produce, a text of fewer than 50 characters is never
  passed on: for an accepted file whose extraction gives such a text, \<open>onUpload\<close> gets
  the file name followed by the generic sentence; and every text \<open>onUpload\<close> gets, for
  any selection, has at least 50 characters.
\<close>

theorem upload_floor:
  "(type f \<in> set validTypes \<and> size_bytes f \<le> 5242880
      \<and> extract_text f = Some raw \<and> length raw < 50
    \<longrightarrow> snd (handleFileChange (Some f) st) =
          [Toast_success ''Resume uploaded and processed successfully!'',
           OnUpload True (Some (name f @ generic_sentence))])
   \<and> (OnUpload b (Some t) \<in> set (snd (handleFileChange selected st)) \<longrightarrow> 50 \<le> length t)"
proof -
  have floor: "50 \<le> length (if length x < 50 then n @ generic_sentence else x)" for x n :: string
    by (simp add: generic_sentence_length)
  have "50 \<le> length t" if "OnUpload b (Some t) \<in> set (snd (handleFileChange selected st))"
  proof (cases selected)
    case None
    with that show ?thesis by (simp add: handleFileChange_def)
  next
    case (Some g)
    with that obtain x where "t = (if length x < 50 then name g @ generic_sentence else x)"
      by (auto simp: handleFileChange_def split: if_splits option.splits)
    with floor show ?thesis by simp
  qed
  then show ?thesis by (auto simp: handleFileChange_def)
qed

theorem upload_floor_witness:
  "extract_text \<lparr>name = ''cv.txt'', type = ''text/plain'', size_bytes = 9, contents = Some ''Jane Doe.''\<rparr>
     = Some ''Jane Doe.''
   \<and> snd (handleFileChange
        (Some \<lparr>name = ''cv.txt'', type = ''text/plain'', size_bytes = 9, contents = Some ''Jane Doe.''\<rparr>)
        \<lparr>file_st = None, uploading = False, error = None\<rparr>) =
       [Toast_success ''Resume uploaded and processed successfully!'',
        OnUpload True (Some (''cv.txt'' @ generic_sentence))]
   \<and> 50 \<le> length (''cv.txt'' @ generic_sentence)"
proof -
  let ?f = "\<lparr>name = ''cv.txt'', type = ''text/plain'', size_bytes = 9, contents = Some ''Jane Doe.''\<rparr>"
  let ?st = "\<lparr>file_st = None, uploading = False, error = None\<rparr>"
  have a: "type ?f \<in> set validTypes \<and> size_bytes ?f \<le> 5242880
      \<and> extract_text ?f = Some ''Jane Doe.'' \<and> length ''Jane Doe.'' < 50"
    by (simp add: validTypes_def extract_text_def)
  from a upload_floor [of ?f "''Jane Doe.''" ?st]
  have r: "snd (handleFileChange (Some ?f) ?st) =
      [Toast_success ''Resume uploaded and processed successfully!'',
       OnUpload True (Some (name ?f @ generic_sentence))]"
    by blast
  then have "OnUpload True (Some (''cv.txt'' @ generic_sentence))
      \<in> set (snd (handleFileChange (Some ?f) ?st))"
    by simp
  with upload_floor [of ?f "''Jane Doe.''" ?st True "''cv.txt'' @ generic_sentence" "Some ?f"]
  have "50 \<le> length (''cv.txt'' @ generic_sentence)" by blast
  with a r show ?thesis by simp
qed

text \<open>
  C9. An accepted plain-text file (media type \<open>text/plain\<close>, size within the limit) whose
  decoded content has at least 50 characters is passed to \<open>onUpload\<close> unchanged.
\<close>

theorem plain_text_round_trip:
  assumes "type f = ''text/plain''" and "size_bytes f \<le> 5242880"
    and "contents f = Some content" and "50 \<le> length content"
  shows "snd (handleFileChange (Some f) st) =
           [Toast_success ''Resume uploaded and processed successfully!'',
            OnUpload True (Some content)]"
  using assms by (simp add: handleFileChange_def validTypes_def extract_text_def)

theorem plain_text_round_trip_witness:
  "snd (handleFileChange
     (Some \<lparr>name = ''cv.txt'', type = ''text/plain'', size_bytes = 61,
            contents = Some ''Experienced engineer with Python and SQL skills, based in Pune''\<rparr>)
     \<lparr>file_st = None, uploading = False, error = None\<rparr>) =
   [Toast_success ''Resume uploaded and processed successfully!'',
    OnUpload True (Some ''Experienced engineer with Python and SQL skills, based in Pune'')]"
  by (rule plain_text_round_trip) simp_all



text \<open>The other two branches at work: with no parenthesis in the content the \<open>/Text\<close>
  array decides; with a short parenthesis text and no array, the printable characters
  replace what the first heuristic found.\<close>

lemma extract_pdf_text_array_example:
  "extract_pdf ''1 0 obj /Text [Ten years of experience building data pipelines in Python and SQL for retail analytics; team lead since 2019] endobj''
   = ''Ten years of experience building data pipelines in Python and SQL for retail analytics; team lead since 2019''"
  by code_simp

lemma extract_pdf_printable_example:
  "extract_pdf ''%PDF-1.4 (Jane Doe) stream Senior engineer with a decade of experience in distributed systems and databases endstream''
   = ''%PDF-1.4 (Jane Doe) stream Senior engineer with decade experience distributed systems and databases endstream''"
  by code_simp


section \<open>Properties of the job posting text\<close>

lemma collapse_ws_no_space: "\<forall>c \<in> set s. \<not> is_space c \<Longrightarrow> collapse_ws s = s"
  by (induction s) auto

lemma trim_no_space: "\<forall>c \<in> set s. \<not> is_space c \<Longrightarrow> trim s = s"
proof -
  assume a: "\<forall>c \<in> set s. \<not> is_space c"
  then have "dropWhile is_space s = s"
    by (cases s) auto
  moreover from a have "dropWhile is_space (rev s) = rev s"
    by (cases "rev s") (auto simp: dropWhile_eq_self_iff hd_rev)
  ultimately show ?thesis by (simp add: trim_def)
qed

text \<open>On a successful response the stored text is the window on the collapsed text.\<close>

lemma handleExtractFromUrl_ok:
  "jobUrl st \<noteq> [] \<Longrightarrow> 200 \<le> status \<Longrightarrow> status \<le> 299 \<Longrightarrow>
   handleExtractFromUrl (Response status textContent) st =
     (st\<lparr>jobText := limit_text (trim (collapse_ws textContent)),
         extractionError := None, isExtracting := False\<rparr>,
      [OnJobDescriptionChange (limit_text (trim (collapse_ws textContent))),
       Toast_success ''Job description extracted successfully''])"
  by (simp add: handleExtractFromUrl_def Let_def)

text \<open>What the window does, by where the first section heading stands.\<close>

lemma limit_text_window:
  "section_index e = Some i \<Longrightarrow> i \<noteq> 0 \<Longrightarrow> limit_text e = take 4000 (drop i e)"
  by (simp add: limit_text_def)

lemma limit_text_no_section:
  "section_index e = None \<Longrightarrow>
   limit_text e = (if length e > 5000 then take 5000 e @ ''...'' else e)"
  by (simp add: limit_text_def)

lemma limit_text_section_first:
  "section_index e = Some 0 \<Longrightarrow>
   limit_text e = (if length e > 5000 then take 5000 e @ ''...'' else e)"
  by (simp add: limit_text_def)

text \<open>
  C3. A page whose text begins with a section heading: the match is at index 0, which
  the test \<open>jobDescriptionMatches.index\<close> takes for false. The text, of 6000 characters,
  is stored as its first 5000 characters and an ellipsis, not as the 4000 characters from
  the match.
\<close>

theorem limit_text_heading_first:
  "section_index (''Requirements'' @ replicate 5988 (CHR ''x'')) = Some 0
   \<and> jobText (fst (handleExtractFromUrl
        (Response 200 (''Requirements'' @ replicate 5988 (CHR ''x'')))
        \<lparr>activeTab = ''url'', jobUrl = ''https://example.com/job'', jobText = [],
         isExtracting = False, extractionError = None\<rparr>))
      = take 5000 (''Requirements'' @ replicate 5988 (CHR ''x'')) @ ''...''
   \<and> length (jobText (fst (handleExtractFromUrl
        (Response 200 (''Requirements'' @ replicate 5988 (CHR ''x'')))
        \<lparr>activeTab = ''url'', jobUrl = ''https://example.com/job'', jobText = [],
         isExtracting = False, extractionError = None\<rparr>))) = 5003
   \<and> length (take 4000 (drop 0 (''Requirements'' @ replicate 5988 (CHR ''x'')))) = 4000"
proof -
  let ?e = "''Requirements'' @ replicate 5988 (CHR ''x'')"
  have ns: "\<forall>c \<in> set ?e. \<not> is_space c"
    by (auto simp: is_space_def)
  have i: "section_index ?e = Some 0"
    by (simp add: section_at_def lower_ascii_def)
  have l: "limit_text ?e = take 5000 ?e @ ''...''"
    using limit_text_section_first [OF i] by simp
  have c: "trim (collapse_ws ?e) = ?e"
    using collapse_ws_no_space [OF ns] trim_no_space [OF ns] by simp
  have j: "jobText (fst (handleExtractFromUrl (Response 200 ?e)
        \<lparr>activeTab = ''url'', jobUrl = ''https://example.com/job'', jobText = [],
         isExtracting = False, extractionError = None\<rparr>)) = take 5000 ?e @ ''...''"
    by (simp only: handleExtractFromUrl_ok c l JobDescriptionInput.simps fst_conv
        list.distinct not_False_eq_True)
  have n: "length (take 5000 ?e @ ''...'') = 5003" by simp
  show ?thesis unfolding j using i n by simp
qed


section \<open>Properties of the calls to the language model\<close>

lemma first_three_at_most_three:
  "first_three E r = Some v \<Longrightarrow> \<exists>n. length_of v = Some n \<and> n \<le> 3"
  by (auto simp: first_three_def split: json.splits sum.splits elim!: slice3.elims)

lemma salary_fallback_length: "length_of salary_fallback = Some 3"
  by (simp add: salary_fallback_def)

lemma learning_fallback_length: "length_of learning_fallback = Some 3"
  by (simp add: learning_fallback_def)

lemma parse_analysis_message:
  "parse_analysis E r = Inl e \<Longrightarrow> e = Error ''Failed to parse resume analysis data''"
  by (auto simp: parse_analysis_def split: option.splits)

lemma trimmed_nonempty: "50 \<le> length (trim s) \<Longrightarrow> s \<noteq> []"
  by (auto simp: trim_def)

text \<open>
  C1, as stated, fails. The resume and the job description are long enough and the
  reply, "Sorry, I cannot help with that.", holds no JSON: \<open>JSON.parse\<close> rejects it, and
  the call does not fail with a parse error but returns the fallback analysis.
\<close>

theorem parse_failure_is_not_surfaced:
  "JSON_parse example_environment
     (json_text (CHR ''{'') (CHR ''}'') ''Sorry, I cannot help with that.'')
     = Inl ''Unexpected token''
   \<and> analyzeResumeJobMatch example_environment
       ''Software engineer with five years of experience in Python, SQL and AWS.''
       ''We are hiring a backend developer with strong Python and cloud skills.''
       (Responded 200 [] (Inr (envelope ''Sorry, I cannot help with that.'')))
     = Inr fallback_analysis"
  by code_simp

text \<open>
  C1, amended. When the reply is a text on which \<open>JSON.parse\<close> fails, all three calls
  mask the failure: \<open>analyzeResumeJobMatch\<close>, given a resume and a job description of
  trimmed length at least 50, returns the fallback analysis (no error reaches the caller),
  and \<open>getSalaryTrendsFromGemini\<close> and \<open>getLearningRecommendationsFromGemini\<close> return
  their fallback arrays, of 3 elements each.
\<close>

theorem parse_failure_fallbacks:
  assumes "callGeminiAPI E fetched = Inr (JStr s)"
  shows "(50 \<le> length (trim resume) \<and> 50 \<le> length (trim job)
          \<and> JSON_parse E (json_text (CHR ''{'') (CHR ''}'') s) = Inl m
        \<longrightarrow> analyzeResumeJobMatch E resume job fetched = Inr fallback_analysis)
       \<and> (JSON_parse E (json_text (CHR ''['') (CHR '']'') s) = Inl m'
        \<longrightarrow> getSalaryTrendsFromGemini E fetched = salary_fallback
          \<and> getLearningRecommendationsFromGemini E fetched = learning_fallback)
       \<and> length_of salary_fallback = Some 3 \<and> length_of learning_fallback = Some 3"
  using assms trimmed_nonempty [of resume] trimmed_nonempty [of job]
  by (auto simp: analyzeResumeJobMatch_def analysis_attempt_def parse_analysis_def
      getSalaryTrendsFromGemini_def getLearningRecommendationsFromGemini_def first_three_def
      salary_fallback_length learning_fallback_length)

theorem parse_failure_fallbacks_witness:
  "callGeminiAPI example_environment
       (Responded 200 [] (Inr (envelope ''Sorry, I cannot help with that.'')))
     = Inr (JStr ''Sorry, I cannot help with that.'')
   \<and> analyzeResumeJobMatch example_environment
       ''Software engineer with five years of experience in Python, SQL and AWS.''
       ''We are hiring a backend developer with strong Python and cloud skills.''
       (Responded 200 [] (Inr (envelope ''Sorry, I cannot help with that.'')))
     = Inr fallback_analysis
   \<and> getSalaryTrendsFromGemini example_environment
       (Responded 200 [] (Inr (envelope ''Sorry, I cannot help with that.''))) = salary_fallback
   \<and> getLearningRecommendationsFromGemini example_environment
       (Responded 200 [] (Inr (envelope ''Sorry, I cannot help with that.''))) = learning_fallback"
proof -
  let ?f = "Responded 200 [] (Inr (envelope ''Sorry, I cannot help with that.''))"
  let ?r = "''Software engineer with five years of experience in Python, SQL and AWS.''"
  let ?j = "''We are hiring a backend developer with strong Python and cloud skills.''"
  have c: "callGeminiAPI example_environment ?f = Inr (JStr ''Sorry, I cannot help with that.'')"
    by code_simp
  have l: "50 \<le> length (trim ?r) \<and> 50 \<le> length (trim ?j)"
    by code_simp
  have o: "JSON_parse example_environment
      (json_text (CHR ''{'') (CHR ''}'') ''Sorry, I cannot help with that.'') = Inl ''Unexpected token''"
    by code_simp
  have a: "JSON_parse example_environment
      (json_text (CHR ''['') (CHR '']'') ''Sorry, I cannot help with that.'') = Inl ''Unexpected token''"
    by code_simp
  from parse_failure_fallbacks [OF c, of ?r ?j "''Unexpected token''" "''Unexpected token''"] l o a c
  show ?thesis by blast
qed

text \<open>
  C5. The inputs are long enough and the endpoint answers 400 with the status text
  "Request too short". The error of that answer is not a validation error, but its message
  includes "too short": the outer \<open>catch\<close>, whose comment reads "Re-throw the validation
  error to be handled by the UI", throws it to the caller instead of returning the
  fallback analysis.
\<close>

theorem upstream_error_thrown_again:
  "analyzeResumeJobMatch example_environment
     ''Software engineer with five years of experience in Python, SQL and AWS.''
     ''We are hiring a backend developer with strong Python and cloud skills.''
     (Responded 400 ''Request too short'' (Inr (JObj [])))
   = Inl (Error ''API error: 400 Request too short'')"
  by code_simp

text \<open>The same through the body of an answer 200 that reports an error.\<close>

lemma upstream_error_in_body_thrown_again:
  "analyzeResumeJobMatch example_environment
     ''Software engineer with five years of experience in Python, SQL and AWS.''
     ''We are hiring a backend developer with strong Python and cloud skills.''
     (Responded 200 [] (Inr (JObj [(''error'', JObj [(''message'', JStr ''Prompt too short'')])])))
   = Inl (Error ''Prompt too short'')"
  by code_simp

text \<open>In general: an error of \<open>callGeminiAPI\<close> whose message includes "too short" is
  thrown again.\<close>

lemma upstream_too_short:
  assumes "50 \<le> length (trim resume)" and "50 \<le> length (trim job)"
    and "callGeminiAPI E fetched = Inl e" and "js_includes (message e) ''too short''"
  shows "analyzeResumeJobMatch E resume job fetched = Inl e"
  using assms trimmed_nonempty [of resume] trimmed_nonempty [of job]
  by (auto simp: analyzeResumeJobMatch_def analysis_attempt_def)

text \<open>
  Everywhere else the call does what is expected of it. An empty or short resume, and
  with a long enough resume an empty or short job description, make it throw the
  validation error that names it. With both long enough, an error thrown by
  \<open>callGeminiAPI\<close> (network failure, rejected body, status outside 2xx, error in the
  body) whose message does not include "too short" gives the fallback analysis; a
  failure of the inner \<open>try\<close> (JSON parse failure) and a malformed envelope always give
  the fallback analysis.
\<close>

lemma analysis_error_policy:
  "(resume = [] \<or> length (trim resume) < 50
      \<longrightarrow> analyzeResumeJobMatch E resume job fetched =
          Inl (Error ''Resume text is too short for accurate analysis. Please provide a more detailed resume.''))
   \<and> (50 \<le> length (trim resume) \<and> (job = [] \<or> length (trim job) < 50)
      \<longrightarrow> analyzeResumeJobMatch E resume job fetched =
          Inl (Error ''Job description is too short for accurate analysis. Please provide a more detailed job description.''))
   \<and> (50 \<le> length (trim resume) \<and> 50 \<le> length (trim job)
        \<and> callGeminiAPI E fetched = Inl e \<and> \<not> js_includes (message e) ''too short''
      \<longrightarrow> analyzeResumeJobMatch E resume job fetched = Inr fallback_analysis)
   \<and> (50 \<le> length (trim resume) \<and> 50 \<le> length (trim job)
        \<and> callGeminiAPI E fetched = Inr r \<and> parse_analysis E r = Inl e'
      \<longrightarrow> analyzeResumeJobMatch E resume job fetched = Inr fallback_analysis)
   \<and> (50 \<le> length (trim resume) \<and> 50 \<le> length (trim job)
        \<and> GEMINI_API_KEY E \<noteq> [] \<and> fetched = Responded status statusText (Inr data)
        \<and> 200 \<le> status \<and> status \<le> 299 \<and> data \<noteq> JNull
        \<and> (\<forall>v. field ''error'' data = Some v \<longrightarrow> \<not> truthy v)
        \<and> (\<forall>v. reply_text data = Some v \<longrightarrow> \<not> truthy v)
      \<longrightarrow> analyzeResumeJobMatch E resume job fetched = Inr fallback_analysis)"
proof -
  have p: "parse_analysis E r = Inl e' \<Longrightarrow> \<not> js_includes (message e') ''too short''"
    using parse_analysis_message [of E r e'] by simp
  have env: "callGeminiAPI E (Responded status statusText (Inr data))
      = Inl (Error ''Invalid response format from Gemini API'')"
    if "GEMINI_API_KEY E \<noteq> []" "200 \<le> status" "status \<le> 299" "data \<noteq> JNull"
      "\<forall>v. field ''error'' data = Some v \<longrightarrow> \<not> truthy v"
      "\<forall>v. reply_text data = Some v \<longrightarrow> \<not> truthy v"
    using that by (auto simp: callGeminiAPI_def read_reply_def split: option.splits)
  show ?thesis
    using trimmed_nonempty [of resume] trimmed_nonempty [of job] p env
    by (auto simp: analyzeResumeJobMatch_def analysis_attempt_def)
qed

text \<open>The policy at work: a short resume, a service that is down, a reply without
  candidates.\<close>

lemma analysis_error_policy_examples:
  "analyzeResumeJobMatch example_environment ''Jane Doe''
     ''We are hiring a backend developer with strong Python and cloud skills.''
     (Rejected ''Failed to fetch'')
   = Inl (Error ''Resume text is too short for accurate analysis. Please provide a more detailed resume.'')
   \<and> analyzeResumeJobMatch example_environment
     ''Software engineer with five years of experience in Python, SQL and AWS.''
     ''We are hiring a backend developer with strong Python and cloud skills.''
     (Responded 503 ''Service Unavailable'' (Inr (JObj [])))
   = Inr fallback_analysis
   \<and> analyzeResumeJobMatch example_environment
     ''Software engineer with five years of experience in Python, SQL and AWS.''
     ''We are hiring a backend developer with strong Python and cloud skills.''
     (Responded 200 [] (Inr (JObj [(''candidates'', JArr [])])))
   = Inr fallback_analysis"
proof -
  let ?r = "''Software engineer with five years of experience in Python, SQL and AWS.''"
  let ?j = "''We are hiring a backend developer with strong Python and cloud skills.''"
  have l: "50 \<le> length (trim ?r) \<and> 50 \<le> length (trim ?j)"
    by code_simp
  have s: "length (trim ''Jane Doe'') < 50"
    by code_simp
  have d: "callGeminiAPI example_environment (Responded 503 ''Service Unavailable'' (Inr (JObj [])))
      = Inl (Error ''API error: 503 Service Unavailable'')"
    by code_simp
  have n: "\<not> js_includes (message (Error ''API error: 503 Service Unavailable'')) ''too short''"
    by code_simp
  have k: "GEMINI_API_KEY example_environment \<noteq> []"
    by (simp add: example_environment_def)
  have g: "(\<forall>v. field ''error'' (JObj [(''candidates'', JArr [])]) = Some v \<longrightarrow> \<not> truthy v)
      \<and> (\<forall>v. reply_text (JObj [(''candidates'', JArr [])]) = Some v \<longrightarrow> \<not> truthy v)"
    by (simp add: reply_text_def chain_def)
  from s analysis_error_policy [of "''Jane Doe''" example_environment ?j "Rejected ''Failed to fetch''"]
  have 1: "analyzeResumeJobMatch example_environment ''Jane Doe'' ?j (Rejected ''Failed to fetch'')
      = Inl (Error ''Resume text is too short for accurate analysis. Please provide a more detailed resume.'')"
    by blast
  from l d n
    analysis_error_policy [of ?r example_environment ?j
      "Responded 503 ''Service Unavailable'' (Inr (JObj []))"
      "Error ''API error: 503 Service Unavailable''"]
  have 2: "analyzeResumeJobMatch example_environment ?r ?j
      (Responded 503 ''Service Unavailable'' (Inr (JObj []))) = Inr fallback_analysis"
    by blast
  from l k g
    analysis_error_policy [where resume = ?r and E = example_environment
      and job = ?j
      and fetched = "Responded 200 [] (Inr (JObj [(''candidates'', JArr [])]))"
      and status = 200 and statusText = "[]" and data = "JObj [(''candidates'', JArr [])]"]
  have 3: "analyzeResumeJobMatch example_environment ?r ?j
      (Responded 200 [] (Inr (JObj [(''candidates'', JArr [])]))) = Inr fallback_analysis"
    by simp
  from 1 2 3 show ?thesis by simp
qed

text \<open>
  C10, as stated, fails for a reply that is a bare JSON string: \<open>JSON.parse\<close> gives the
  string, which has a \<open>slice\<close> of its own, and the function returns its first three
  characters, not an array.
\<close>

theorem trends_can_be_a_string:
  "getSalaryTrendsFromGemini example_environment
     (Responded 200 [] (Inr (envelope ([CHR 0x22] @ ''abcd'' @ [CHR 0x22]))))
   = JStr ''abc''"
  by code_simp

text \<open>What a bare string in the reply becomes.\<close>

lemma bare_string_sliced:
  assumes "callGeminiAPI E fetched = Inr (JStr s)"
    and "JSON_parse E (json_text (CHR ''['') (CHR '']'') s) = Inr (JStr t)"
  shows "getSalaryTrendsFromGemini E fetched = JStr (take 3 t)
       \<and> getLearningRecommendationsFromGemini E fetched = JStr (take 3 t)"
  using assms
  by (simp add: getSalaryTrendsFromGemini_def getLearningRecommendationsFromGemini_def
      first_three_def)

text \<open>
  C10, amended. Both functions always return a value of length at most 3, and an array
  unless the reply decodes to a bare string: the first 3 elements of the array the reply
  decodes to, whatever their number, and the fixed fallback array, of 3 elements, on any
  failure (of the call, of the parse, or a decoded value without a \<open>slice\<close>).
\<close>

theorem at_most_three_items:
  "(\<exists>n. length_of (getSalaryTrendsFromGemini E fetched) = Some n \<and> n \<le> 3)
   \<and> (\<exists>n. length_of (getLearningRecommendationsFromGemini E fetched) = Some n \<and> n \<le> 3)
   \<and> ((\<forall>s t. callGeminiAPI E fetched = Inr (JStr s)
            \<longrightarrow> JSON_parse E (json_text (CHR ''['') (CHR '']'') s) \<noteq> Inr (JStr t))
      \<longrightarrow> (\<exists>xs. getSalaryTrendsFromGemini E fetched = JArr xs)
        \<and> (\<exists>xs. getLearningRecommendationsFromGemini E fetched = JArr xs))
   \<and> (callGeminiAPI E fetched = Inr (JStr s)
        \<and> JSON_parse E (json_text (CHR ''['') (CHR '']'') s) = Inr (JArr xs)
      \<longrightarrow> getSalaryTrendsFromGemini E fetched = JArr (take 3 xs)
        \<and> getLearningRecommendationsFromGemini E fetched = JArr (take 3 xs))
   \<and> ((\<exists>e. callGeminiAPI E fetched = Inl e)
        \<or> (\<exists>r. callGeminiAPI E fetched = Inr r \<and> first_three E r = None)
      \<longrightarrow> getSalaryTrendsFromGemini E fetched = salary_fallback
        \<and> getLearningRecommendationsFromGemini E fetched = learning_fallback)"
proof -
  have a: "\<exists>n. length_of (getSalaryTrendsFromGemini E fetched) = Some n \<and> n \<le> 3"
    using first_three_at_most_three salary_fallback_length
    by (auto simp: getSalaryTrendsFromGemini_def split: sum.splits option.splits)
  have b: "\<exists>n. length_of (getLearningRecommendationsFromGemini E fetched) = Some n \<and> n \<le> 3"
    using first_three_at_most_three learning_fallback_length
    by (auto simp: getLearningRecommendationsFromGemini_def split: sum.splits option.splits)
  have c: "\<exists>xs. v = JArr xs"
    if "first_three E r = Some v"
      and "\<forall>s t. r = JStr s \<longrightarrow> JSON_parse E (json_text (CHR ''['') (CHR '']'') s) \<noteq> Inr (JStr t)"
    for r v
    using that
    by (auto simp: first_three_def split: json.splits sum.splits elim!: slice3.elims)
  have d: "(\<forall>s t. callGeminiAPI E fetched = Inr (JStr s)
            \<longrightarrow> JSON_parse E (json_text (CHR ''['') (CHR '']'') s) \<noteq> Inr (JStr t))
      \<longrightarrow> (\<exists>xs. getSalaryTrendsFromGemini E fetched = JArr xs)
        \<and> (\<exists>xs. getLearningRecommendationsFromGemini E fetched = JArr xs)"
    using c
    by (auto simp: getSalaryTrendsFromGemini_def getLearningRecommendationsFromGemini_def
        salary_fallback_def learning_fallback_def split: sum.splits option.splits)
  show ?thesis
    using a b d
    by (auto simp: getSalaryTrendsFromGemini_def getLearningRecommendationsFromGemini_def
        first_three_def)
qed

theorem at_most_three_items_witness:
  "getSalaryTrendsFromGemini example_environment
     (Responded 200 [] (Inr (envelope ''Here you go: [1, 2, 3, 4, 5] enjoy'')))
   = JArr [JNum 1, JNum 2, JNum 3]
   \<and> getLearningRecommendationsFromGemini example_environment (Rejected ''Failed to fetch'')
   = learning_fallback"
proof -
  let ?f = "Responded 200 [] (Inr (envelope ''Here you go: [1, 2, 3, 4, 5] enjoy''))"
  have c: "callGeminiAPI example_environment ?f = Inr (JStr ''Here you go: [1, 2, 3, 4, 5] enjoy'')"
    by code_simp
  have d: "JSON_parse example_environment
      (json_text (CHR ''['') (CHR '']'') ''Here you go: [1, 2, 3, 4, 5] enjoy'')
      = Inr (JArr [JNum 1, JNum 2, JNum 3, JNum 4, JNum 5])"
    by code_simp
  have r: "callGeminiAPI example_environment (Rejected ''Failed to fetch'')
      = Inl (Error ''Failed to fetch'')"
    by code_simp
  from c d at_most_three_items [of example_environment ?f
      "''Here you go: [1, 2, 3, 4, 5] enjoy''" "[JNum 1, JNum 2, JNum 3, JNum 4, JNum 5]"]
  have 1: "getSalaryTrendsFromGemini example_environment ?f = JArr [JNum 1, JNum 2, JNum 3]"
    by simp
  from r at_most_three_items [of example_environment "Rejected ''Failed to fetch''"]
  have 2: "getLearningRecommendationsFromGemini example_environment (Rejected ''Failed to fetch'')
      = learning_fallback"
    by blast
  from 1 2 show ?thesis by simp
qed


section \<open>Properties of the history\<close>

lemma saveToHistory_saved:
  "hasBeenSaved D \<Longrightarrow> saveToHistory now today p D = (D, [])"
  by (simp add: saveToHistory_def split: option.splits)

lemma rerender_step_saved:
  "hasBeenSaved (fst W) \<Longrightarrow>
   hasBeenSaved (fst (rerender_step ev W)) \<and>
   analysisHistory (fst (rerender_step ev W)) = analysisHistory (fst W)"
  by (cases ev; cases W) (auto simp: save_effect_def saveToHistory_saved split: option.splits)

lemma rerenders_saved:
  "hasBeenSaved (fst W) \<Longrightarrow>
   analysisHistory (fst (rerenders evs W)) = analysisHistory (fst W)"
proof (induction evs arbitrary: W)
  case Nil
  then show ?case by simp
next
  case (Cons ev evs)
  from rerender_step_saved [OF Cons.prems, of ev]
  have "hasBeenSaved (fst (rerender_step ev W))"
    and "analysisHistory (fst (rerender_step ev W)) = analysisHistory (fst W)"
    by simp_all
  with Cons.IH [of "rerender_step ev W"] show ?case by simp
qed

lemma skillMatch_read_truthy: "skillMatch_read analysis = Some skillMatch \<Longrightarrow> truthy analysis"
  by (cases analysis) (simp_all add: skillMatch_read_def)

text \<open>
  C4, as stated, fails for an analysis that succeeds without a \<open>skillMatch\<close>. The user
  starts an analysis and the model replies \<open>{}\<close>: the call returns the empty object, the
  component cannot read \<open>skillMatch.overallMatchPercentage\<close> of it, neither in its render
  nor in the save effect, and the history stays empty.
\<close>

theorem result_without_skillMatch_unsaved:
  "showResults (fst (handleAnalyze ready))
   \<and> queryFn example_environment (resumeText ready) (jobDescription ready)
        (Responded 200 [] (Inr (envelope ''{}''))) = Inr (JObj [])
   \<and> analysisHistory (fst (display example_environment 1762100000000 ''11/2/2026''
        (fst (handleAnalyze ready),
         settle (queryFn example_environment (resumeText ready) (jobDescription ready)
                   (Responded 200 [] (Inr (envelope ''{}'')))) mounted))) = []
   \<and> analysisHistory (fst (save_effect 1762100000000 ''11/2/2026''
        (fst (handleAnalyze ready),
         settle (queryFn example_environment (resumeText ready) (jobDescription ready)
                   (Responded 200 [] (Inr (envelope ''{}'')))) mounted))) = []"
proof -
  have q: "queryFn example_environment (resumeText ready) (jobDescription ready)
      (Responded 200 [] (Inr (envelope ''{}''))) = Inr (JObj [])"
    by code_simp
  have h: "fst (handleAnalyze ready) = ready\<lparr>hasBeenSaved := False, showResults := True\<rparr>"
    by (simp add: handleAnalyze_def ready_def)
  show ?thesis
    unfolding q h
    by (simp add: display_def save_effect_def settle_def loaded_def mounted_def
        skillMatch_read_def ready_def)
qed

text \<open>
  C4, amended. A signed-in user starts an analysis that \<open>handleAnalyze\<close> lets through; the
  results component mounts, its query returns an analysis that has a \<open>skillMatch\<close> to
  read (neither \<open>undefined\<close> nor \<open>null\<close>), and the page of that analysis renders. The
  save effect then puts exactly one record, holding the \<open>overallMatchPercentage\<close> of that
  \<open>skillMatch\<close>, in front of the user's history; and whatever follows without the user
  starting a new analysis (the effect evaluated again, \<open>saveToHistory\<close> called again, the
  component mounted again, the query fetched again), in any number and order, leaves the
  history as it is.
\<close>

theorem one_record_per_analysis:
  assumes "user D = Some email" and "resumeUploaded D"
    and "50 \<le> length (resumeText D)" and "50 \<le> length (jobDescription D)"
    and "queryFn E (resumeText D) (jobDescription D) fetched = Inr analysis"
    and "skillMatch_read analysis = Some skillMatch"
    and "page_renders E analysis"
  shows "analysisHistory (fst (display E now today
             (fst (handleAnalyze D),
              settle (queryFn E (resumeText D) (jobDescription D) fetched) mounted)))
           = \<lparr>item_id = decimal now, item_date = today,
              item_matchPercentage = field ''overallMatchPercentage'' skillMatch,
              item_jobTitle = Some (first_line_title (jobDescription D)),
              item_resumeText = Some (resumeText D),
              item_jobDescription = Some (jobDescription D)\<rparr> # analysisHistory D
       \<and> analysisHistory (fst (rerenders evs (display E now today
             (fst (handleAnalyze D),
              settle (queryFn E (resumeText D) (jobDescription D) fetched) mounted))))
           = analysisHistory (fst (display E now today
             (fst (handleAnalyze D),
              settle (queryFn E (resumeText D) (jobDescription D) fetched) mounted)))"
proof -
  let ?W = "display E now today
     (fst (handleAnalyze D),
      settle (queryFn E (resumeText D) (jobDescription D) fetched) mounted)"
  from assms have ne: "resumeText D \<noteq> []" "jobDescription D \<noteq> []" by auto
  with assms have h: "fst (handleAnalyze D) = D\<lparr>hasBeenSaved := False, showResults := True\<rparr>"
    by (simp add: handleAnalyze_def)
  have t: "truthy analysis"
    using assms(6) by (rule skillMatch_read_truthy)
  have w: "?W = (fst (saveToHistory now today (field ''overallMatchPercentage'' skillMatch)
                   (D\<lparr>hasBeenSaved := False, showResults := True\<rparr>)),
                 (loaded analysis mounted)\<lparr>hasSaved := True\<rparr>)"
    using assms(5,6,7) t
    by (simp add: h display_def save_effect_def settle_def shown_error_def loaded_def mounted_def)
  have s: "hasBeenSaved (fst ?W)"
    using assms(1) by (simp add: w saveToHistory_def Let_def)
  have a: "analysisHistory (fst ?W)
           = \<lparr>item_id = decimal now, item_date = today,
              item_matchPercentage = field ''overallMatchPercentage'' skillMatch,
              item_jobTitle = Some (first_line_title (jobDescription D)),
              item_resumeText = Some (resumeText D),
              item_jobDescription = Some (jobDescription D)\<rparr> # analysisHistory D"
    using assms(1) by (simp add: w saveToHistory_def Let_def)
  from a rerenders_saved [OF s, of evs] show ?thesis by simp
qed

text \<open>The reply holds no JSON, the call returns the fallback analysis, and its 65 is
  saved once.\<close>

theorem one_record_per_analysis_witness:
  "map item_matchPercentage (analysisHistory (fst (rerenders
      [Effect_again 1762100000100 ''11/2/2026'',
       Save_again 1762100000200 ''11/2/2026'' (Some (JNum 65)),
       Mounted_again 1762100000300 ''11/2/2026'',
       Fetched_again 1762100000400 ''11/2/2026'' (scored 75)]
      (display example_environment 1762100000000 ''11/2/2026''
         (fst (handleAnalyze ready),
          settle (queryFn example_environment (resumeText ready) (jobDescription ready)
                    (Responded 200 [] (Inr (envelope ''Sorry, I cannot help with that.''))))
            mounted)))))
   = [Some (JNum 65)]"
proof -
  let ?f = "Responded 200 [] (Inr (envelope ''Sorry, I cannot help with that.''))"
  let ?m = "JObj
         [(''matched'', JArr (map JStr
             [''Problem-solving abilities'', ''Basic programming knowledge'',
              ''Communication skills'', ''Team collaboration'', ''Technical aptitude''])),
          (''missing'', JArr (map JStr
             [''Advanced JavaScript frameworks'', ''Cloud computing experience'',
              ''System design knowledge'', ''DevOps practices'', ''Database optimization''])),
          (''overallMatchPercentage'', JNum 65)]"
  have u: "user ready = Some ''jane@example.com''" and v: "resumeUploaded ready"
    and l: "50 \<le> length (resumeText ready)" "50 \<le> length (jobDescription ready)"
    and e: "analysisHistory ready = []"
    by (simp_all add: ready_def)
  have q: "queryFn example_environment (resumeText ready) (jobDescription ready) ?f
      = Inr fallback_analysis"
    by code_simp
  have m: "skillMatch_read fallback_analysis = Some ?m"
    by (simp add: skillMatch_read_def fallback_analysis_def)
  have r: "page_renders example_environment fallback_analysis"
    by (simp add: example_environment_def)
  from one_record_per_analysis [OF u v l q m r, where now = 1762100000000
      and today = "''11/2/2026''"
      and evs = "[Effect_again 1762100000100 ''11/2/2026'',
        Save_again 1762100000200 ''11/2/2026'' (Some (JNum 65)),
        Mounted_again 1762100000300 ''11/2/2026'',
        Fetched_again 1762100000400 ''11/2/2026'' (scored 75)]"]
  show ?thesis by (simp add: e)
qed

text \<open>Selecting a record changes the text buffers, not the history; what the results
  component then does is the save effect, which saves when the dashboard's flag is down.\<close>

lemma handleViewHistory_history:
  "analysisHistory (fst (handleViewHistory item D)) = analysisHistory D
   \<and> hasBeenSaved (fst (handleViewHistory item D)) = hasBeenSaved D
   \<and> user (fst (handleViewHistory item D)) = user D"
  by (simp add: handleViewHistory_def split: option.splits)

lemma view_then_effect_saves:
  assumes "user D = Some email" and "\<not> hasBeenSaved D"
    and "skillMatch_read analysis = Some skillMatch"
  shows "length (analysisHistory (fst (save_effect now today
           (fst (handleViewHistory item D), loaded analysis mounted))))
         = Suc (length (analysisHistory D))"
  using assms handleViewHistory_history [of item D] skillMatch_read_truthy [of analysis skillMatch]
  by (simp add: save_effect_def shown_error_def loaded_def mounted_def saveToHistory_def Let_def)

lemma view_then_effect_keeps:
  assumes "hasBeenSaved D"
  shows "analysisHistory (fst (save_effect now today
           (fst (handleViewHistory item D), loaded analysis mounted))) = analysisHistory D"
  using assms handleViewHistory_history [of item D]
  by (simp add: save_effect_def shown_error_def loaded_def mounted_def saveToHistory_saved
      split: option.splits)

text \<open>The flag is down in a new session and after \<open>Back\<close>.\<close>

lemma onBack_flag: "\<not> hasBeenSaved (onBack D)"
  by (simp add: onBack_def Let_def)

text \<open>The new session is the state at mount once the history is loaded and the user
  has opened the history tab.\<close>

lemma new_session_reached:
  "new_session =
     (load_history (initial_dashboard (Some ''jane@example.com'')
        ((\<lambda>k. None)(''analysisHistory_jane@example.com'' := Some [stored_record]))))
     \<lparr>dashboardTab := ''history''\<rparr>"
  by (simp add: new_session_def load_history_def initial_dashboard_def)

text \<open>
  C2. In the new session the user views the stored record: \<open>handleViewHistory\<close> fills
  the buffers from it, the results component mounts and its query gives an analysis of
  the stored texts. The save effect then adds a second record for the same texts to the
  history, which had one.
\<close>

theorem view_history_saves_again:
  "analysisHistory new_session = [stored_record]
   \<and> length (analysisHistory (fst (save_effect 1762100000000 ''11/2/2026''
        (fst (handleViewHistory stored_record new_session), loaded (scored 72) mounted)))) = 2
   \<and> map item_resumeText (analysisHistory (fst (save_effect 1762100000000 ''11/2/2026''
        (fst (handleViewHistory stored_record new_session), loaded (scored 72) mounted))))
     = [item_resumeText stored_record, item_resumeText stored_record]"
  by (simp add: save_effect_def shown_error_def handleViewHistory_def stored_record_def
      new_session_def loaded_def mounted_def saveToHistory_def skillMatch_read_def scored_def
      Let_def)

end
